theory Spec2Isabelle
  imports Main
begin

section \<open>JavaScript strings and numbers\<close>

text \<open>
  A JavaScript string is modelled as a \<^typ>\<open>string\<close>: a list of characters whose codes
  (\<^term>\<open>of_char c :: nat\<close>) are read as the code points U+0000 to U+00FF. The length of the
  list is the \<^verbatim>\<open>length\<close> of the JavaScript string. A JavaScript number that holds an
  integer is modelled as an \<^typ>\<open>int\<close>, and \<^verbatim>\<open>NaN\<close> as \<^term>\<open>None\<close>; the
  rounding of integers beyond \<open>2 ^ 53\<close> is not part of the model.
\<close>

text \<open>White space and line terminators of ECMAScript, as \<^verbatim>\<open>trim\<close> removes them.\<close>

definition isWhiteSpace :: "char \<Rightarrow> bool" where
  "isWhiteSpace c = (of_char c \<in> {9, 10, 11, 12, 13, 32, 160 :: nat})"

text \<open>\<^verbatim>\<open>String.prototype.trim\<close>.\<close>

definition trim :: "string \<Rightarrow> string" where
  "trim s = rev (dropWhile isWhiteSpace (rev (dropWhile isWhiteSpace s)))"

text \<open>\<^verbatim>\<open>String.prototype.toLowerCase\<close>, character by character.\<close>

definition toLowerChar :: "char \<Rightarrow> char" where
  "toLowerChar c =
     (let n = of_char c :: nat
      in if (65 \<le> n \<and> n \<le> 90) \<or> (192 \<le> n \<and> n \<le> 222 \<and> n \<noteq> 215)
         then char_of (n + 32) else c)"

definition toLowerCase :: "string \<Rightarrow> string" where
  "toLowerCase s = map toLowerChar s"

text \<open>The class \<^verbatim>\<open>\d\<close> of a regular expression: the ten ASCII digits.\<close>

definition isDigit :: "char \<Rightarrow> bool" where
  "isDigit c = (48 \<le> (of_char c :: nat) \<and> (of_char c :: nat) \<le> 57)"

text \<open>
  The value of a character as a digit of \<^verbatim>\<open>parseInt\<close>: \<open>0\<close> to \<open>9\<close>, then the
  letters of either case from ten upwards.
\<close>

definition digitValue :: "char \<Rightarrow> nat option" where
  "digitValue c =
     (let n = of_char c :: nat
      in if 48 \<le> n \<and> n \<le> 57 then Some (n - 48)
         else if 97 \<le> n \<and> n \<le> 122 then Some (n - 87)
         else if 65 \<le> n \<and> n \<le> 90 then Some (n - 55)
         else None)"

definition isRadixDigit :: "nat \<Rightarrow> char \<Rightarrow> bool" where
  "isRadixDigit R c = (case digitValue c of None \<Rightarrow> False | Some v \<Rightarrow> v < R)"

definition radixValue :: "nat \<Rightarrow> string \<Rightarrow> nat" where
  "radixValue R Z = foldl (\<lambda>acc c. acc * R + (case digitValue c of None \<Rightarrow> 0 | Some v \<Rightarrow> v)) 0 Z"

text \<open>
  \<^verbatim>\<open>parseInt(string)\<close> with no radix: leading white space is skipped, a sign is read,
  a prefix \<^verbatim>\<open>0x\<close> or \<^verbatim>\<open>0X\<close> selects radix 16, and the longest run of digits of the
  radix is the value; no digit at all gives \<^verbatim>\<open>NaN\<close>.
\<close>

definition parseInt :: "string \<Rightarrow> int option" where
  "parseInt inputString =
     (let S = dropWhile isWhiteSpace inputString;
          sign = (if S \<noteq> [] \<and> hd S = CHR ''-'' then - 1 else 1 :: int);
          S = (if S \<noteq> [] \<and> (hd S = CHR ''+'' \<or> hd S = CHR ''-'') then tl S else S);
          hex = (2 \<le> length S \<and> (take 2 S = ''0x'' \<or> take 2 S = ''0X''));
          R = (if hex then 16 else 10 :: nat);
          S = (if hex then drop 2 S else S);
          Z = takeWhile (isRadixDigit R) S
      in if Z = [] then None else Some (sign * int (radixValue R Z)))"

text \<open>
  \<^verbatim>\<open>n || d\<close> on numbers: \<^verbatim>\<open>NaN\<close> and zero are falsy and give \<open>d\<close>.
\<close>

fun or_number :: "int option \<Rightarrow> int \<Rightarrow> int" where
  "or_number None d = d"
| "or_number (Some n) d = (if n = 0 then d else n)"

section \<open>Dates\<close>

text \<open>
  A time value is a number of milliseconds since the epoch, in UTC. The clock of the
  browser is a parameter: the current time value and the offset of local time from UTC,
  in milliseconds.
\<close>

record clock =
  now :: int
  tzOffset :: int

definition msPerDay :: int where
  "msPerDay = 86400000"

definition isLeapYear :: "int \<Rightarrow> bool" where
  "isLeapYear y = (y mod 4 = 0 \<and> (y mod 100 \<noteq> 0 \<or> y mod 400 = 0))"

definition DaysInMonth :: "int \<Rightarrow> nat \<Rightarrow> int" where
  "DaysInMonth y m =
     (if m = 2 then (if isLeapYear y then 29 else 28)
      else if m = 4 \<or> m = 6 \<or> m = 9 \<or> m = 11 then 30 else 31)"

text \<open>The day number of the first day of a year (ECMAScript \<^verbatim>\<open>DayFromYear\<close>).\<close>

definition DayFromYear :: "int \<Rightarrow> int" where
  "DayFromYear y =
     365 * (y - 1970) + (y - 1969) div 4 - (y - 1901) div 100 + (y - 1601) div 400"

text \<open>The day number of a calendar date, months and days counted from one.\<close>

definition MakeDay :: "int \<Rightarrow> nat \<Rightarrow> nat \<Rightarrow> int" where
  "MakeDay y m d = DayFromYear y + sum_list (map (DaysInMonth y) [1..<m]) + int d - 1"

definition decimal :: "string \<Rightarrow> nat" where
  "decimal ds = radixValue 10 ds"

text \<open>
  The day number of a date-only string \<^verbatim>\<open>YYYY-MM-DD\<close>, the form in which an input
  of type \<^verbatim>\<open>date\<close> reports its value. Any other string is no date here.
\<close>

definition parseDateOnly :: "string \<Rightarrow> int option" where
  "parseDateOnly s =
     (if length s = 10 \<and> s ! 4 = CHR ''-'' \<and> s ! 7 = CHR ''-''
         \<and> list_all isDigit (take 4 s) \<and> list_all isDigit (take 2 (drop 5 s))
         \<and> list_all isDigit (drop 8 s)
      then
        (let y = int (decimal (take 4 s));
             m = decimal (take 2 (drop 5 s));
             d = decimal (drop 8 s)
         in if 1 \<le> m \<and> m \<le> 12 \<and> 1 \<le> d \<and> int d \<le> DaysInMonth y m
            then Some (MakeDay y m d) else None)
      else None)"

text \<open>
  \<^verbatim>\<open>new Date(string)\<close> on a date-only string: midnight of that day in UTC;
  \<^term>\<open>None\<close> is the invalid date.
\<close>

definition Date_parse :: "string \<Rightarrow> int option" where
  "Date_parse s = map_option (\<lambda>D. D * msPerDay) (parseDateOnly s)"

text \<open>The number of the current day in local time.\<close>

definition localDay :: "clock \<Rightarrow> int" where
  "localDay env = (now env + tzOffset env) div msPerDay"

text \<open>
  \<^verbatim>\<open>const today = new Date(); today.setHours(0, 0, 0, 0)\<close>: the time value of the
  local midnight that began the current local day.
\<close>

definition today :: "clock \<Rightarrow> int" where
  "today env = localDay env * msPerDay - tzOffset env"

section \<open>SearchForm\<close>

record SearchFormData =
  from' :: string
  to' :: string
  departureDate :: string
  maxPrice :: int

text \<open>The keys of \<^verbatim>\<open>SearchFormData\<close>, which are the names of the four inputs.\<close>

datatype field = From | To | DepartureDate | MaxPrice

text \<open>The \<^verbatim>\<open>type\<close> attribute the component gives to each input.\<close>

datatype input_type = TextInput | DateInput | NumberInput

fun type_of_input :: "field \<Rightarrow> input_type" where
  "type_of_input From = TextInput"
| "type_of_input To = TextInput"
| "type_of_input DepartureDate = DateInput"
| "type_of_input MaxPrice = NumberInput"

text \<open>
  The state of the component: the two \<^verbatim>\<open>useState\<close> cells, the timer of the debounced
  function (the time at which it is due and the arguments of the last call), and the
  log of the calls made to the \<^verbatim>\<open>onSearch\<close> property, oldest first. The property
  \<^verbatim>\<open>onSearch\<close> is the same function for the life of the state, so that
  \<^verbatim>\<open>useCallback\<close> keeps one debounced function.
\<close>

record SearchForm =
  formData :: SearchFormData
  errors :: "field \<rightharpoonup> string"
  timer :: "(nat \<times> SearchFormData) option"
  onSearch_calls :: "SearchFormData list"

definition initialFormData :: SearchFormData where
  "initialFormData = \<lparr>from' = [], to' = [], departureDate = [], maxPrice = 0\<rparr>"

definition initialSearchForm :: SearchForm where
  "initialSearchForm =
     \<lparr>formData = initialFormData, errors = Map.empty, timer = None, onSearch_calls = []\<rparr>"

text \<open>
  \<^verbatim>\<open>debounce(f, 500)\<close> of lodash with its default options (trailing edge only):
  a call records its arguments and sets the timer to 500 ms after the call; when the
  timer is due the function runs once, on the arguments of the last call.
\<close>

definition debouncedSearch :: "nat \<Rightarrow> SearchFormData \<Rightarrow> SearchForm \<Rightarrow> SearchForm" where
  "debouncedSearch t searchData st = st\<lparr>timer := Some (t + 500, searchData)\<rparr>"

text \<open>The passage of time up to \<open>t\<close>: a timer that is due runs.\<close>

definition advance :: "nat \<Rightarrow> SearchForm \<Rightarrow> SearchForm" where
  "advance t st =
     (case timer st of
        None \<Rightarrow> st
      | Some (due, searchData) \<Rightarrow>
          if due \<le> t
          then st\<lparr>timer := None, onSearch_calls := onSearch_calls st @ [searchData]\<rparr>
          else st)"

definition normalizeLocation :: "string \<Rightarrow> string" where
  "normalizeLocation location =
     trim (filter (\<lambda>c. c \<noteq> CHR '','' \<and> c \<noteq> CHR ''.'') (toLowerCase location))"

text \<open>\<^verbatim>\<open>Object.keys\<close> of an error object.\<close>

definition Object_keys :: "(field \<rightharpoonup> string) \<Rightarrow> field list" where
  "Object_keys e = filter (\<lambda>k. e k \<noteq> None) [From, To, DepartureDate, MaxPrice]"

text \<open>\<^verbatim>\<open>validateForm\<close> returns the errors it stores with \<^verbatim>\<open>setErrors\<close> and its result.\<close>

definition validateForm :: "clock \<Rightarrow> SearchFormData \<Rightarrow> (field \<rightharpoonup> string) \<times> bool" where
  "validateForm env fd =
     (let newErrors = Map.empty;
          newErrors = (if trim (from' fd) = []
                       then newErrors(From \<mapsto> ''Departure location is required'')
                       else newErrors);
          newErrors = (if trim (to' fd) = []
                       then newErrors(To \<mapsto> ''Destination is required'')
                       else newErrors);
          newErrors = (if normalizeLocation (from' fd) = normalizeLocation (to' fd)
                       then newErrors(To \<mapsto> ''Destination must be different from departure location'')
                       else newErrors);
          newErrors = (if departureDate fd \<noteq> []
                       then (case Date_parse (departureDate fd) of
                               None \<Rightarrow> newErrors
                             | Some selectedDate \<Rightarrow>
                                 if selectedDate < today env
                                 then newErrors(DepartureDate \<mapsto> ''Departure date cannot be in the past'')
                                 else newErrors)
                       else newErrors)
      in (newErrors, length (Object_keys newErrors) = 0))"

text \<open>
  \<^verbatim>\<open>handleSubmit\<close>. The parameter \<open>throws\<close> tells on which argument the call of
  \<^verbatim>\<open>onSearch\<close> raises an exception.
\<close>

definition handleSubmit :: "clock \<Rightarrow> (SearchFormData \<Rightarrow> bool) \<Rightarrow> SearchForm \<Rightarrow> SearchForm" where
  "handleSubmit env throws st =
     (let st = st\<lparr>errors := Map.empty\<rparr>;
          (newErrors, valid) = validateForm env (formData st);
          st = st\<lparr>errors := newErrors\<rparr>
      in if \<not> valid then st
         else
           (let searchData =
                  \<lparr>from' = trim (from' (formData st)),
                   to' = trim (to' (formData st)),
                   departureDate = departureDate (formData st),
                   maxPrice = or_number (Some (maxPrice (formData st))) 10000\<rparr>;
                st = st\<lparr>onSearch_calls := onSearch_calls st @ [searchData]\<rparr>
            in if throws searchData
               then st\<lparr>errors := [From \<mapsto> ''Search failed. Please try again.'']\<rparr>
               else st))"

text \<open>
  A value stored in the form data: a string, or a number for the input of type
  \<^verbatim>\<open>number\<close>.
\<close>

datatype field_value = Str string | Num int

text \<open>\<^verbatim>\<open>{...formData, [name]: v}\<close>, for the values that \<^verbatim>\<open>handleChange\<close> computes.\<close>

fun assign :: "SearchFormData \<Rightarrow> field \<Rightarrow> field_value \<Rightarrow> SearchFormData" where
  "assign fd From (Str s) = fd\<lparr>from' := s\<rparr>"
| "assign fd To (Str s) = fd\<lparr>to' := s\<rparr>"
| "assign fd DepartureDate (Str s) = fd\<lparr>departureDate := s\<rparr>"
| "assign fd MaxPrice (Num n) = fd\<lparr>maxPrice := n\<rparr>"
| "assign fd _ _ = fd"

text \<open>
  \<^verbatim>\<open>handleChange\<close> at time \<open>t\<close> for a change event of the input \<open>name\<close> with the
  new \<open>value\<close>; the type of the event's target is the type of that input.
\<close>

definition handleChange :: "nat \<Rightarrow> field \<Rightarrow> string \<Rightarrow> SearchForm \<Rightarrow> SearchForm" where
  "handleChange t name value st =
     (let st = (if (case errors st name of None \<Rightarrow> False | Some msg \<Rightarrow> msg \<noteq> [])
                then st\<lparr>errors := (errors st)(name := None)\<rparr> else st);
          newFormData =
            assign (formData st) name
              (if type_of_input name = NumberInput
               then Num (if value = [] then 0 else max 0 (or_number (parseInt value) 0))
               else Str value);
          st = st\<lparr>formData := newFormData\<rparr>
      in if (name = From \<or> name = To) \<and> 2 \<le> length value
         then debouncedSearch t newFormData st
         else st)"



text \<open>A property \<^verbatim>\<open>onSearch\<close> that never raises an exception.\<close>

definition returns :: "SearchFormData \<Rightarrow> bool" where
  "returns searchData = False"

section \<open>TripCard\<close>

datatype role = driver | passenger

record Passenger =
  passenger_id :: int
  passenger_name :: string
  passenger_phone :: "string option"
  passenger_email :: "string option"
  createdAt :: string

record Driver =
  driver_name :: string
  driver_phone :: string

text \<open>
  Modelled from the spec: the type \<^verbatim>\<open>Trip\<close> of \<^verbatim>\<open>@/types/trip\<close>, whose declaration is not
  among the sources. The fields are those of the spec's data model; \<^verbatim>\<open>id\<close>,
  \<^verbatim>\<open>from\<close> and \<^verbatim>\<open>to\<close> carry the prefix \<open>trip_\<close>, and a \<^verbatim>\<open>userRole\<close> that is neither
  \<^verbatim>\<open>'driver'\<close> nor \<^verbatim>\<open>'passenger'\<close> is \<^term>\<open>None\<close>.
\<close>

record Trip =
  trip_id :: int
  trip_from :: string
  trip_to :: string
  departureTime :: string
  maxPassengers :: int
  currentPassengers :: int
  pricePerPerson :: int
  description :: string
  driverId :: int
  trip_driver :: "Driver option"
  userRole :: "role option"
  passengers :: "Passenger list"

text \<open>The user of \<^verbatim>\<open>useAuth\<close>, when there is one.\<close>

record User =
  user_id :: int
  user_name :: string
  user_phone :: "string option"

text \<open>How a promise settles: it resolves, or it rejects with an error carrying a message.\<close>

datatype outcome = Resolved | Rejected string

text \<open>
  The properties of the card: \<^verbatim>\<open>onJoin\<close> when it is supplied, as the way its promise
  settles for a trip id; whether \<^verbatim>\<open>onUpdate\<close> is supplied; \<^verbatim>\<open>showActions\<close>.
\<close>

record TripCardProps =
  onJoin :: "(int \<Rightarrow> outcome) option"
  has_onUpdate :: bool
  showActions :: bool

text \<open>
  The state of the card that the join action reads and writes, with the effects it has
  outside the component: the alerts shown, the calls of \<^verbatim>\<open>onUpdate\<close> and the delays of
  the timeouts set, oldest first. The callback \<^verbatim>\<open>onUpdate\<close> returns without an
  exception.
\<close>

record TripCard =
  localTrip :: Trip
  isLoading :: bool
  isAnimating :: bool
  alerts :: "string list"
  onUpdate_calls :: "Trip list"
  timeouts :: "nat list"

definition isOwner :: "User option \<Rightarrow> Trip \<Rightarrow> bool" where
  "isOwner user trip =
     ((case user of None \<Rightarrow> False | Some u \<Rightarrow> user_id u = driverId trip)
      \<or> userRole trip = Some driver)"

definition isPassenger :: "Trip \<Rightarrow> bool" where
  "isPassenger trip = (userRole trip = Some passenger)"

definition canJoin :: "User option \<Rightarrow> Trip \<Rightarrow> bool" where
  "canJoin user trip =
     (\<not> isOwner user trip \<and> \<not> isPassenger trip
      \<and> currentPassengers trip < maxPassengers trip)"

definition isFull :: "Trip \<Rightarrow> bool" where
  "isFull trip = (currentPassengers trip \<ge> maxPassengers trip)"

text \<open>The join button as the card renders it, \<^term>\<open>None\<close> when it renders none.\<close>

record Button =
  disabled :: bool
  label :: string

definition joinButton :: "TripCardProps \<Rightarrow> User option \<Rightarrow> TripCard \<Rightarrow> Button option" where
  "joinButton props user st =
     (if canJoin user (localTrip st) \<and> showActions props
      then Some \<lparr>disabled = isLoading st,
                 label = (if isLoading st then ''Joining...'' else ''Join Trip'')\<rparr>
      else None)"

text \<open>The badge \<^verbatim>\<open>Trip Full\<close>.\<close>

definition tripFullBadge :: "User option \<Rightarrow> TripCard \<Rightarrow> bool" where
  "tripFullBadge user st =
     (isFull (localTrip st) \<and> \<not> isOwner user (localTrip st) \<and> \<not> isPassenger (localTrip st))"

text \<open>
  \<^verbatim>\<open>String.prototype.slice(start, end)\<close>; \<^term>\<open>None\<close> is a second argument left out.
\<close>

definition slice :: "string \<Rightarrow> int \<Rightarrow> int option \<Rightarrow> string" where
  "slice s start finish =
     (let len = int (length s);
          first = (if start < 0 then max (len + start) 0 else min start len);
          final = (case finish of
                     None \<Rightarrow> len
                   | Some e \<Rightarrow> if e < 0 then max (len + e) 0 else min e len)
      in take (nat (final - first)) (drop (nat first) s))"

definition formatPhoneNumber :: "string \<Rightarrow> string" where
  "formatPhoneNumber phoneNumber =
     (if phoneNumber = [] then []
      else
        (let cleaned = filter isDigit phoneNumber
         in if length cleaned = 10
            then ''+91 '' @ slice cleaned 0 (Some 5) @ '' '' @ slice cleaned 5 None
            else if length cleaned > 10
            then (let countryCode = slice cleaned 0 (Some (- 10));
                      number = slice cleaned (- 10) None
                  in ''+'' @ countryCode @ '' '' @ slice number 0 (Some 5) @ '' ''
                     @ slice number 5 None)
            else phoneNumber))"

text \<open>
  \<^verbatim>\<open>handleJoin\<close>, with the way the promise of \<^verbatim>\<open>joinTrip\<close> settles for a trip id as a
  parameter. The state returned is the state when the handler has finished; the
  timeout that clears \<^verbatim>\<open>isAnimating\<close> is then still to run.
\<close>

definition handleJoin :: "TripCardProps \<Rightarrow> (int \<Rightarrow> outcome) \<Rightarrow> TripCard \<Rightarrow> TripCard" where
  "handleJoin props joinTrip st =
     (case onJoin props of
        None \<Rightarrow>
          (let st = st\<lparr>isLoading := True\<rparr>;
               st = (case joinTrip (trip_id (localTrip st)) of
                       Resolved \<Rightarrow>
                         (let updatedTrip = (localTrip st)
                                \<lparr>currentPassengers := currentPassengers (localTrip st) + 1\<rparr>;
                              st = st\<lparr>localTrip := updatedTrip\<rparr>;
                              st = (if has_onUpdate props
                                    then st\<lparr>onUpdate_calls := onUpdate_calls st @ [updatedTrip]\<rparr>
                                    else st);
                              st = st\<lparr>isAnimating := True\<rparr>
                          in st\<lparr>timeouts := timeouts st @ [1000]\<rparr>)
                     | Rejected message \<Rightarrow> st\<lparr>alerts := alerts st @ [message]\<rparr>)
           in st\<lparr>isLoading := False\<rparr>)
      | Some onJoin' \<Rightarrow>
          (let st = st\<lparr>isLoading := True\<rparr>;
               st = (case onJoin' (trip_id (localTrip st)) of
                       Resolved \<Rightarrow>
                         (let st = st\<lparr>isAnimating := True\<rparr>
                          in st\<lparr>timeouts := timeouts st @ [1000]\<rparr>)
                     | Rejected message \<Rightarrow> st\<lparr>alerts := alerts st @ [message]\<rparr>)
           in st\<lparr>isLoading := False\<rparr>))"

section \<open>Sample inputs\<close>

text \<open>A clock at the epoch in UTC, and a form filled with given values.\<close>

definition epoch :: clock where
  "epoch = \<lparr>now = 0, tzOffset = 0\<rparr>"

definition filled :: "string \<Rightarrow> string \<Rightarrow> string \<Rightarrow> int \<Rightarrow> SearchForm" where
  "filled f t d p =
     initialSearchForm\<lparr>formData := \<lparr>from' = f, to' = t, departureDate = d, maxPrice = p\<rparr>\<rparr>"

text \<open>A clock on 9 March 2024 (UTC), five and a half hours ahead of UTC.\<close>

definition ist_clock :: clock where
  "ist_clock = \<lparr>now = 1710000000000, tzOffset = 19800000\<rparr>"


text \<open>A form holding \<^verbatim>\<open>Mumbai\<close> as \<^verbatim>\<open>from\<close> into whose \<^verbatim>\<open>to\<close> a value has just been typed.\<close>

definition typed_to :: "string \<Rightarrow> SearchForm" where
  "typed_to v = handleChange 0 To v (filled ''Mumbai'' [] [] 0)"

text \<open>A trip with two of its four seats taken, and a card showing it.\<close>

definition trip0 :: Trip where
  "trip0 = \<lparr>trip_id = 7, trip_from = ''Mumbai'', trip_to = ''Pune'',
     departureTime = ''2024-03-10T09:00:00.000Z'', maxPassengers = 4, currentPassengers = 2,
     pricePerPerson = 500, description = [], driverId = 1, trip_driver = None,
     userRole = None, passengers = []\<rparr>"

definition card0 :: TripCard where
  "card0 = \<lparr>localTrip = trip0, isLoading = False, isAnimating = False, alerts = [],
     onUpdate_calls = [], timeouts = []\<rparr>"

text \<open>A promise that resolves, and one that rejects.\<close>

definition succeeds :: "int \<Rightarrow> outcome" where
  "succeeds tripId = Resolved"

definition fails :: "int \<Rightarrow> outcome" where
  "fails tripId = Rejected ''Trip is full''"

text \<open>A card without \<^verbatim>\<open>onJoin\<close>, and a card with an \<^verbatim>\<open>onJoin\<close> that resolves.\<close>

definition direct :: TripCardProps where
  "direct = \<lparr>onJoin = None, has_onUpdate = True, showActions = True\<rparr>"

definition delegated :: TripCardProps where
  "delegated = \<lparr>onJoin = Some succeeds, has_onUpdate = True, showActions = True\<rparr>"

text \<open>A user who is not the driver of the sample trip.\<close>

definition stranger :: User where
  "stranger = \<lparr>user_id = 2, user_name = ''Asha'', user_phone = None\<rparr>"

text \<open>The sample card with all four seats taken.\<close>

definition full_card :: TripCard where
  "full_card = card0\<lparr>localTrip := trip0\<lparr>currentPassengers := 4\<rparr>\<rparr>"

section \<open>Validation and submission of the search form\<close>

lemma Object_keys_empty: "(length (Object_keys e) = 0) = (\<forall>k. e k = None)"
proof
  assume "length (Object_keys e) = 0"
  then have a: "e From = None \<and> e To = None \<and> e DepartureDate = None \<and> e MaxPrice = None"
    by (simp add: Object_keys_def split: if_splits)
  show "\<forall>k. e k = None"
  proof
    fix k show "e k = None" using a by (cases k) simp_all
  qed
next
  assume "\<forall>k. e k = None"
  then show "length (Object_keys e) = 0" by (simp add: Object_keys_def)
qed

lemma validateForm_valid: "snd (validateForm env fd) = (\<forall>k. fst (validateForm env fd) k = None)"
  by (simp only: validateForm_def Let_def snd_conv fst_conv Object_keys_empty)

lemma validateForm_error_invalid:
  "fst (validateForm env fd) k = Some msg \<Longrightarrow> \<not> snd (validateForm env fd)"
  by (simp add: validateForm_valid) (metis option.distinct(1))

lemma handleSubmit_invalid:
  "\<not> snd (validateForm env (formData st)) \<Longrightarrow>
   handleSubmit env throws st = st\<lparr>errors := fst (validateForm env (formData st))\<rparr>"
  by (cases "validateForm env (formData st)") (simp add: handleSubmit_def Let_def)

lemma handleSubmit_valid:
  "snd (validateForm env (formData st)) \<Longrightarrow>
   onSearch_calls (handleSubmit env throws st) =
     onSearch_calls st @
       [\<lparr>from' = trim (from' (formData st)), to' = trim (to' (formData st)),
         departureDate = departureDate (formData st),
         maxPrice = (if maxPrice (formData st) = 0 then 10000 else maxPrice (formData st))\<rparr>]"
  by (cases "validateForm env (formData st)") (simp add: handleSubmit_def Let_def)


lemma validateForm_To:
  "fst (validateForm env fd) To =
     (if normalizeLocation (from' fd) = normalizeLocation (to' fd)
      then Some ''Destination must be different from departure location''
      else if trim (to' fd) = [] then Some ''Destination is required'' else None)"
  by (simp add: validateForm_def Let_def split: option.splits)

lemma validateForm_DepartureDate:
  "fst (validateForm env fd) DepartureDate =
     (if departureDate fd = [] then None
      else case Date_parse (departureDate fd) of
             None \<Rightarrow> None
           | Some selectedDate \<Rightarrow>
               if selectedDate < today env then Some ''Departure date cannot be in the past''
               else None)"
  by (simp add: validateForm_def Let_def split: option.splits)

lemma handleSubmit_DepartureDate_empty:
  "departureDate (formData st) = [] \<Longrightarrow> errors (handleSubmit env throws st) DepartureDate = None"
proof (cases "validateForm env (formData st)")
  case (Pair e v)
  assume d: "departureDate (formData st) = []"
  have "e DepartureDate = None"
    using validateForm_DepartureDate [of env "formData st"] d Pair by simp
  then show ?thesis using Pair by (simp add: handleSubmit_def Let_def)
qed

text \<open>
  Claim C3. Whenever \<^verbatim>\<open>from\<close> and \<^verbatim>\<open>to\<close> normalize (lower case, commas and
  periods removed, trimmed) to the same string, submitting sets the error of \<^verbatim>\<open>to\<close> to
  the destination-mismatch message and makes no call of \<^verbatim>\<open>onSearch\<close>, whatever the
  case and the punctuation of the two strings.
\<close>

theorem same_location_rejected:
  assumes "normalizeLocation (from' (formData st)) = normalizeLocation (to' (formData st))"
  shows "errors (handleSubmit env throws st) To
           = Some ''Destination must be different from departure location''
         \<and> onSearch_calls (handleSubmit env throws st) = onSearch_calls st"
proof -
  have e: "fst (validateForm env (formData st)) To
             = Some ''Destination must be different from departure location''"
    using assms by (simp add: validateForm_To)
  then have "\<not> snd (validateForm env (formData st))"
    by (rule validateForm_error_invalid)
  then have "handleSubmit env throws st = st\<lparr>errors := fst (validateForm env (formData st))\<rparr>"
    by (rule handleSubmit_invalid)
  with e show ?thesis by simp
qed

lemma formData_filled:
  "formData (filled f t d p) = \<lparr>from' = f, to' = t, departureDate = d, maxPrice = p\<rparr>"
  "onSearch_calls (filled f t d p) = []"
  by (simp_all add: filled_def initialSearchForm_def)

text \<open>
  The examples of claim C3: \<^verbatim>\<open>Mumbai\<close>, \<^verbatim>\<open>mumbai,\<close> and \<^verbatim>\<open>Mumbai.\<close> normalize to one
  string, and a form holding two of them is rejected.
\<close>

theorem same_location_rejected_witness:
  "normalizeLocation ''Mumbai'' = normalizeLocation ''mumbai,''
   \<and> normalizeLocation ''mumbai,'' = normalizeLocation ''Mumbai.''
   \<and> errors (handleSubmit epoch returns (filled ''Mumbai'' ''mumbai,'' [] 0)) To
       = Some ''Destination must be different from departure location''
   \<and> onSearch_calls (handleSubmit epoch returns (filled ''Mumbai'' ''mumbai,'' [] 0)) = []
   \<and> errors (handleSubmit epoch returns (filled ''mumbai,'' ''Mumbai.'' [] 0)) To
       = Some ''Destination must be different from departure location''
   \<and> onSearch_calls (handleSubmit epoch returns (filled ''mumbai,'' ''Mumbai.'' [] 0)) = []"
proof -
  have a: "normalizeLocation ''Mumbai'' = normalizeLocation ''mumbai,''" by code_simp
  have b: "normalizeLocation ''mumbai,'' = normalizeLocation ''Mumbai.''" by code_simp
  show ?thesis
    using a b
      same_location_rejected [of "filled ''Mumbai'' ''mumbai,'' [] 0" epoch returns]
      same_location_rejected [of "filled ''mumbai,'' ''Mumbai.'' [] 0" epoch returns]
    by (simp add: formData_filled)
qed




section \<open>The date check and the price\<close>

lemma past_day_before_today:
  assumes "D < localDay env" and "tzOffset env < msPerDay"
  shows "D * msPerDay < today env"
proof -
  have "D + 1 \<le> localDay env" using assms(1) by simp
  then have "(D + 1) * msPerDay \<le> localDay env * msPerDay"
    by (simp add: msPerDay_def)
  then show ?thesis using assms(2) by (simp add: today_def algebra_simps)
qed

lemma parseDateOnly_nonempty: "parseDateOnly s = Some D \<Longrightarrow> s \<noteq> []"
  by (auto simp: parseDateOnly_def split: if_splits)

text \<open>
  Claim C8. With an empty \<^verbatim>\<open>departureDate\<close> validation makes no date check: the field has
  no error after a submit. With a date \<open>D\<close> supplied that is strictly earlier than the
  current local calendar day, the error of \<^verbatim>\<open>departureDate\<close> is
  \<^verbatim>\<open>Departure date cannot be in the past\<close> and the submit makes no call of
  \<^verbatim>\<open>onSearch\<close>. Local time is less than a day ahead of UTC, as in every time zone.
\<close>

theorem past_date_rejected:
  "(departureDate (formData st) = [] \<longrightarrow>
      errors (handleSubmit env throws st) DepartureDate = None)
   \<and> (parseDateOnly (departureDate (formData st)) = Some D \<and> D < localDay env
        \<and> tzOffset env < msPerDay \<longrightarrow>
      errors (handleSubmit env throws st) DepartureDate
        = Some ''Departure date cannot be in the past''
      \<and> onSearch_calls (handleSubmit env throws st) = onSearch_calls st)"
proof (intro conjI impI)
  assume "departureDate (formData st) = []"
  then show "errors (handleSubmit env throws st) DepartureDate = None"
    by (rule handleSubmit_DepartureDate_empty)
next
  assume h: "parseDateOnly (departureDate (formData st)) = Some D \<and> D < localDay env
        \<and> tzOffset env < msPerDay"
  then have lt: "D * msPerDay < today env"
    by (simp add: past_day_before_today)
  have ne: "departureDate (formData st) \<noteq> []"
    using h parseDateOnly_nonempty by blast
  have e: "fst (validateForm env (formData st)) DepartureDate
             = Some ''Departure date cannot be in the past''"
    using h lt ne by (simp add: validateForm_DepartureDate Date_parse_def)
  then have "\<not> snd (validateForm env (formData st))"
    by (rule validateForm_error_invalid)
  then have s: "handleSubmit env throws st = st\<lparr>errors := fst (validateForm env (formData st))\<rparr>"
    by (rule handleSubmit_invalid)
  from s e show "errors (handleSubmit env throws st) DepartureDate
        = Some ''Departure date cannot be in the past''"
    by simp
  from s show "onSearch_calls (handleSubmit env throws st) = onSearch_calls st"
    by simp
qed

text \<open>
  Claim C8 on 9 March 2024 in a zone at UTC+5:30: no date, and the day before.
\<close>

theorem past_date_rejected_witness:
  "errors (handleSubmit ist_clock returns (filled ''Mumbai'' ''Pune'' [] 0)) DepartureDate = None
   \<and> parseDateOnly ''2024-03-08'' = Some 19790
   \<and> localDay ist_clock = 19791
   \<and> errors (handleSubmit ist_clock returns (filled ''Mumbai'' ''Pune'' ''2024-03-08'' 0)) DepartureDate
       = Some ''Departure date cannot be in the past''
   \<and> onSearch_calls (handleSubmit ist_clock returns (filled ''Mumbai'' ''Pune'' ''2024-03-08'' 0)) = []"
proof -
  have a: "parseDateOnly ''2024-03-08'' = Some 19790" by code_simp
  have b: "localDay ist_clock = 19791" by code_simp
  have c: "tzOffset ist_clock < msPerDay" by code_simp
  show ?thesis
    using a b c
      past_date_rejected [where st = "filled ''Mumbai'' ''Pune'' [] 0" and env = ist_clock
        and throws = returns and D = 0]
      past_date_rejected [where st = "filled ''Mumbai'' ''Pune'' ''2024-03-08'' 0"
        and env = ist_clock and throws = returns and D = 19790]
    by (simp add: formData_filled)
qed

lemma formData_handleChange:
  "formData (handleChange t name value st) =
     assign (formData st) name
       (if type_of_input name = NumberInput
        then Num (if value = [] then 0 else max 0 (or_number (parseInt value) 0))
        else Str value)"
  by (simp add: handleChange_def Let_def debouncedSearch_def)

lemma onSearch_calls_handleChange:
  "onSearch_calls (handleChange t name value st) = onSearch_calls st"
  by (simp add: handleChange_def Let_def debouncedSearch_def)

lemma timer_handleChange:
  "timer (handleChange t name value st) =
     (if (name = From \<or> name = To) \<and> 2 \<le> length value
      then Some (t + 500, formData (handleChange t name value st))
      else timer st)"
  by (simp add: handleChange_def Let_def debouncedSearch_def)

lemma or_number_zero: "or_number v 0 = (case v of None \<Rightarrow> 0 | Some n \<Rightarrow> n)"
  by (cases v) simp_all

text \<open>
  Claim C9. After a change event of the \<^verbatim>\<open>maxPrice\<close> input the stored value is a
  non-negative integer: zero for an empty input and for one that \<^verbatim>\<open>parseInt\<close> cannot
  read, and otherwise the parsed value, raised to zero when it is negative. An explicit
  submit that passes validation calls \<^verbatim>\<open>onSearch\<close> once, with 10000 for a stored
  \<^verbatim>\<open>maxPrice\<close> of zero and with the stored value otherwise.
\<close>

theorem maxPrice_coercion:
  "0 \<le> maxPrice (formData (handleChange t MaxPrice v st))
   \<and> maxPrice (formData (handleChange t MaxPrice v st))
       = (if v = [] then 0 else case parseInt v of None \<Rightarrow> 0 | Some n \<Rightarrow> max 0 n)
   \<and> (snd (validateForm env (formData st)) \<longrightarrow>
        (\<exists>searchData. onSearch_calls (handleSubmit env throws st) = onSearch_calls st @ [searchData]
           \<and> maxPrice searchData
               = (if maxPrice (formData st) = 0 then 10000 else maxPrice (formData st))))"
proof (intro conjI impI)
  show "0 \<le> maxPrice (formData (handleChange t MaxPrice v st))"
    by (simp add: formData_handleChange)
  show "maxPrice (formData (handleChange t MaxPrice v st))
       = (if v = [] then 0 else case parseInt v of None \<Rightarrow> 0 | Some n \<Rightarrow> max 0 n)"
    by (simp add: formData_handleChange or_number_zero split: option.splits)
next
  assume "snd (validateForm env (formData st))"
  then show "\<exists>searchData. onSearch_calls (handleSubmit env throws st) = onSearch_calls st @ [searchData]
           \<and> maxPrice searchData
               = (if maxPrice (formData st) = 0 then 10000 else maxPrice (formData st))"
    by (simp add: handleSubmit_valid)
qed

text \<open>
  Claim C9 on the inputs \<^verbatim>\<open>-5\<close>, \<^verbatim>\<open>250\<close>, the empty string and \<^verbatim>\<open>abc\<close>, and on
  the submit of a valid form with a stored price of 0 and of 250.
\<close>

theorem maxPrice_coercion_witness:
  "maxPrice (formData (handleChange 0 MaxPrice ''-5'' (filled ''Mumbai'' ''Pune'' [] 250))) = 0
   \<and> maxPrice (formData (handleChange 0 MaxPrice ''250'' (filled ''Mumbai'' ''Pune'' [] 0))) = 250
   \<and> maxPrice (formData (handleChange 0 MaxPrice [] (filled ''Mumbai'' ''Pune'' [] 250))) = 0
   \<and> maxPrice (formData (handleChange 0 MaxPrice ''abc'' (filled ''Mumbai'' ''Pune'' [] 250))) = 0
   \<and> snd (validateForm epoch (formData (filled ''Mumbai'' ''Pune'' [] 0)))
   \<and> map maxPrice (onSearch_calls (handleSubmit epoch returns (filled ''Mumbai'' ''Pune'' [] 0)))
       = [10000]
   \<and> map maxPrice (onSearch_calls (handleSubmit epoch returns (filled ''Mumbai'' ''Pune'' [] 250)))
       = [250]"
proof -
  have p: "parseInt ''-5'' = Some (- 5)" "parseInt ''250'' = Some 250" "parseInt ''abc'' = None"
    by code_simp+
  have v: "snd (validateForm epoch (formData (filled ''Mumbai'' ''Pune'' [] 0)))"
    "snd (validateForm epoch (formData (filled ''Mumbai'' ''Pune'' [] 250)))"
    by code_simp+
  show ?thesis
    using p v
      maxPrice_coercion [where t = 0 and v = "''-5''" and st = "filled ''Mumbai'' ''Pune'' [] 250"
        and env = epoch and throws = returns]
      maxPrice_coercion [where t = 0 and v = "''250''" and st = "filled ''Mumbai'' ''Pune'' [] 0"
        and env = epoch and throws = returns]
      maxPrice_coercion [where t = 0 and v = "[]" and st = "filled ''Mumbai'' ''Pune'' [] 250"
        and env = epoch and throws = returns]
      maxPrice_coercion [where t = 0 and v = "''abc''" and st = "filled ''Mumbai'' ''Pune'' [] 250"
        and env = epoch and throws = returns]
    by (auto simp add: formData_filled)
qed

section \<open>The debounced search\<close>


lemma advance_due:
  "timer st = Some (due, a) \<Longrightarrow> due \<le> t \<Longrightarrow>
   advance t st = st\<lparr>timer := None, onSearch_calls := onSearch_calls st @ [a]\<rparr>"
  by (simp add: advance_def)





section \<open>Live search against submit\<close>

lemma live_search_payload:
  assumes "name = From \<or> name = To" and "2 \<le> length v" and "t + 500 \<le> T"
  shows "onSearch_calls (advance T (handleChange t name v st))
           = onSearch_calls st @ [assign (formData st) name (Str v)]"
proof -
  let ?st = "handleChange t name v st"
  have f: "formData ?st = assign (formData st) name (Str v)"
    using assms(1) by (auto simp: formData_handleChange)
  have "timer ?st = Some (t + 500, formData ?st)"
    using assms(1,2) by (simp add: timer_handleChange)
  then have "advance T ?st = ?st\<lparr>timer := None,
      onSearch_calls := onSearch_calls ?st @ [formData ?st]\<rparr>"
    using assms(3) by (rule advance_due)
  then show ?thesis using f by (simp add: onSearch_calls_handleChange)
qed

text \<open>
  Claim C10. The debounced path calls \<^verbatim>\<open>onSearch\<close> with the form data as they are after
  the edit: the typed value as it is, and the stored \<^verbatim>\<open>maxPrice\<close>, whether or not the
  form would pass validation. The submit path calls \<^verbatim>\<open>onSearch\<close> only for a form that
  passes validation, with \<^verbatim>\<open>from\<close> and \<^verbatim>\<open>to\<close> trimmed and 10000 for a price of zero.
  So the debounced path delivers an untrimmed \<^verbatim>\<open>to\<close> that normalizes to the same string
  as \<^verbatim>\<open>from\<close>, with a price of 0, for a form that the submit path rejects; and for one
  form state that the submit path accepts, the two paths deliver different arguments.
\<close>

theorem live_search_unvalidated:
  "((name = From \<or> name = To) \<and> 2 \<le> length v \<and> t + 500 \<le> T \<longrightarrow>
      onSearch_calls (advance T (handleChange t name v st))
        = onSearch_calls st @ [assign (formData st) name (Str v)])
   \<and> (snd (validateForm env (formData st)) \<longrightarrow>
      onSearch_calls (handleSubmit env throws st)
        = onSearch_calls st @
            [\<lparr>from' = trim (from' (formData st)), to' = trim (to' (formData st)),
              departureDate = departureDate (formData st),
              maxPrice = (if maxPrice (formData st) = 0 then 10000 else maxPrice (formData st))\<rparr>])
   \<and> (\<not> snd (validateForm env (formData st)) \<longrightarrow>
      onSearch_calls (handleSubmit env throws st) = onSearch_calls st)
   \<and> onSearch_calls (advance 500 (typed_to ''mumbai, ''))
       = [\<lparr>from' = ''Mumbai'', to' = ''mumbai, '', departureDate = [], maxPrice = 0\<rparr>]
   \<and> normalizeLocation ''Mumbai'' = normalizeLocation ''mumbai, ''
   \<and> trim ''mumbai, '' \<noteq> ''mumbai, ''
   \<and> onSearch_calls (handleSubmit epoch returns (typed_to ''mumbai, '')) = []
   \<and> onSearch_calls (advance 500 (typed_to '' Pune''))
       = [\<lparr>from' = ''Mumbai'', to' = '' Pune'', departureDate = [], maxPrice = 0\<rparr>]
   \<and> onSearch_calls (handleSubmit epoch returns (typed_to '' Pune''))
       = [\<lparr>from' = ''Mumbai'', to' = ''Pune'', departureDate = [], maxPrice = 10000\<rparr>]"
proof (intro conjI impI)
  assume "(name = From \<or> name = To) \<and> 2 \<le> length v \<and> t + 500 \<le> T"
  then show "onSearch_calls (advance T (handleChange t name v st))
        = onSearch_calls st @ [assign (formData st) name (Str v)]"
    by (simp add: live_search_payload)
next
  assume "snd (validateForm env (formData st))"
  then show "onSearch_calls (handleSubmit env throws st)
        = onSearch_calls st @
            [\<lparr>from' = trim (from' (formData st)), to' = trim (to' (formData st)),
              departureDate = departureDate (formData st),
              maxPrice = (if maxPrice (formData st) = 0 then 10000 else maxPrice (formData st))\<rparr>]"
    by (rule handleSubmit_valid)
next
  assume "\<not> snd (validateForm env (formData st))"
  then show "onSearch_calls (handleSubmit env throws st) = onSearch_calls st"
    by (simp add: handleSubmit_invalid)
next
  show "onSearch_calls (advance 500 (typed_to ''mumbai, ''))
       = [\<lparr>from' = ''Mumbai'', to' = ''mumbai, '', departureDate = [], maxPrice = 0\<rparr>]"
    by code_simp
  show "normalizeLocation ''Mumbai'' = normalizeLocation ''mumbai, ''"
    by code_simp
  show "trim ''mumbai, '' \<noteq> ''mumbai, ''"
    by code_simp
  show "onSearch_calls (handleSubmit epoch returns (typed_to ''mumbai, '')) = []"
    by code_simp
  show "onSearch_calls (advance 500 (typed_to '' Pune''))
       = [\<lparr>from' = ''Mumbai'', to' = '' Pune'', departureDate = [], maxPrice = 0\<rparr>]"
    by code_simp
  show "onSearch_calls (handleSubmit epoch returns (typed_to '' Pune''))
       = [\<lparr>from' = ''Mumbai'', to' = ''Pune'', departureDate = [], maxPrice = 10000\<rparr>]"
    by code_simp
qed

text \<open>
  Claim C10 at an edit whose value ends in a space, at a valid form and at an invalid
  one.
\<close>

theorem live_search_unvalidated_witness:
  "onSearch_calls (advance 700 (handleChange 200 From ''Goa '' (filled [] ''Goa'' [] 0)))
     = [\<lparr>from' = ''Goa '', to' = ''Goa'', departureDate = [], maxPrice = 0\<rparr>]
   \<and> snd (validateForm epoch (formData (filled ''Goa '' '' Pune'' [] 0)))
   \<and> onSearch_calls (handleSubmit epoch returns (filled ''Goa '' '' Pune'' [] 0))
     = [\<lparr>from' = ''Goa'', to' = ''Pune'', departureDate = [], maxPrice = 10000\<rparr>]
   \<and> \<not> snd (validateForm epoch (formData (filled ''Goa '' ''Goa'' [] 0)))
   \<and> onSearch_calls (handleSubmit epoch returns (filled ''Goa '' ''Goa'' [] 0)) = []"
proof -
  have a: "snd (validateForm epoch (formData (filled ''Goa '' '' Pune'' [] 0)))"
    "\<not> snd (validateForm epoch (formData (filled ''Goa '' ''Goa'' [] 0)))"
    "trim ''Goa '' = ''Goa''" "trim '' Pune'' = ''Pune''"
    by code_simp+
  show ?thesis
    using a
      live_search_unvalidated [where name = From and v = "''Goa ''" and t = 200 and T = 700
        and st = "filled [] ''Goa'' [] 0"]
      live_search_unvalidated [where st = "filled ''Goa '' '' Pune'' [] 0" and env = epoch
        and throws = returns]
      live_search_unvalidated [where st = "filled ''Goa '' ''Goa'' [] 0" and env = epoch
        and throws = returns]
    by (simp add: formData_filled)
qed

section \<open>Joining a trip\<close>

lemma handleJoin_callback:
  "onJoin props = Some f \<Longrightarrow>
   handleJoin props joinTrip st =
     (case f (trip_id (localTrip st)) of
        Resolved \<Rightarrow> st\<lparr>isLoading := False, isAnimating := True, timeouts := timeouts st @ [1000]\<rparr>
      | Rejected message \<Rightarrow> st\<lparr>isLoading := False, alerts := alerts st @ [message]\<rparr>)"
  by (simp add: handleJoin_def Let_def split: outcome.splits)

lemma handleJoin_direct_Resolved:
  "onJoin props = None \<Longrightarrow> joinTrip (trip_id (localTrip st)) = Resolved \<Longrightarrow>
   handleJoin props joinTrip st =
     st\<lparr>localTrip := (localTrip st)\<lparr>currentPassengers := currentPassengers (localTrip st) + 1\<rparr>,
        isLoading := False, isAnimating := True,
        onUpdate_calls :=
          (if has_onUpdate props
           then onUpdate_calls st @
                  [(localTrip st)\<lparr>currentPassengers := currentPassengers (localTrip st) + 1\<rparr>]
           else onUpdate_calls st),
        timeouts := timeouts st @ [1000]\<rparr>"
  by (simp add: handleJoin_def Let_def)

lemma handleJoin_direct_Rejected:
  "onJoin props = None \<Longrightarrow> joinTrip (trip_id (localTrip st)) = Rejected message \<Longrightarrow>
   handleJoin props joinTrip st = st\<lparr>isLoading := False, alerts := alerts st @ [message]\<rparr>"
  by (simp add: handleJoin_def Let_def)

text \<open>
  Claim C1, as the code has it. When \<^verbatim>\<open>onJoin\<close> is supplied, \<^verbatim>\<open>handleJoin\<close> leaves the
  local trip as it was, however the callback settles. When it is not supplied, the local
  trip gets \<^verbatim>\<open>currentPassengers\<close> raised by one once \<^verbatim>\<open>joinTrip\<close> has resolved, and
  is left as it was when \<^verbatim>\<open>joinTrip\<close> rejects.
\<close>

theorem join_local_state:
  "(onJoin props = Some f \<longrightarrow> localTrip (handleJoin props joinTrip st) = localTrip st)
   \<and> (onJoin props = None \<and> joinTrip (trip_id (localTrip st)) = Resolved \<longrightarrow>
        localTrip (handleJoin props joinTrip st)
          = (localTrip st)\<lparr>currentPassengers := currentPassengers (localTrip st) + 1\<rparr>)
   \<and> (onJoin props = None \<and> joinTrip (trip_id (localTrip st)) = Rejected message \<longrightarrow>
        localTrip (handleJoin props joinTrip st) = localTrip st)"
proof (intro conjI impI)
  assume "onJoin props = Some f"
  then show "localTrip (handleJoin props joinTrip st) = localTrip st"
    by (simp add: handleJoin_callback split: outcome.splits)
next
  assume "onJoin props = None \<and> joinTrip (trip_id (localTrip st)) = Resolved"
  then show "localTrip (handleJoin props joinTrip st)
          = (localTrip st)\<lparr>currentPassengers := currentPassengers (localTrip st) + 1\<rparr>"
    by (simp add: handleJoin_direct_Resolved)
next
  assume "onJoin props = None \<and> joinTrip (trip_id (localTrip st)) = Rejected message"
  then show "localTrip (handleJoin props joinTrip st) = localTrip st"
    by (simp add: handleJoin_direct_Rejected)
qed

text \<open>
  Claim C1 on the sample card: the callback path, and the direct path with a
  \<^verbatim>\<open>joinTrip\<close> that resolves and with one that rejects.
\<close>

theorem join_local_state_witness:
  "onJoin delegated = Some succeeds
   \<and> localTrip (handleJoin delegated succeeds card0) = trip0
   \<and> onJoin direct = None \<and> succeeds 7 = Resolved
   \<and> localTrip (handleJoin direct succeeds card0) = trip0\<lparr>currentPassengers := 3\<rparr>
   \<and> fails 7 = Rejected ''Trip is full''
   \<and> localTrip (handleJoin direct fails card0) = trip0"
proof -
  have a: "onJoin delegated = Some succeeds" "onJoin direct = None"
    by (simp_all add: delegated_def direct_def)
  have b: "localTrip card0 = trip0" "trip_id trip0 = 7" "currentPassengers trip0 = 2"
    by (simp_all add: card0_def trip0_def)
  have c: "succeeds 7 = Resolved" "fails 7 = Rejected ''Trip is full''"
    by (simp_all add: succeeds_def fails_def)
  show ?thesis
    using a b c
      join_local_state [where props = delegated and f = succeeds and joinTrip = succeeds
        and st = card0]
      join_local_state [where props = direct and joinTrip = succeeds and st = card0]
      join_local_state [where props = direct and joinTrip = fails and st = card0
        and message = "''Trip is full''"]
    by simp
qed

text \<open>
  Claim C1 as the spec states it fails twice on the sample card: with an \<^verbatim>\<open>onJoin\<close>
  that resolves the count of passengers is not raised, and on the direct path with a
  \<^verbatim>\<open>joinTrip\<close> that rejects the error is shown and the count is not raised, so no
  increment came before the success was known.
\<close>

theorem join_increment_counterexample:
  "currentPassengers (localTrip (handleJoin delegated succeeds card0))
     = currentPassengers (localTrip card0)
   \<and> currentPassengers (localTrip (handleJoin delegated succeeds card0))
     \<noteq> currentPassengers (localTrip card0) + 1
   \<and> alerts (handleJoin direct fails card0) = [''Trip is full'']
   \<and> currentPassengers (localTrip (handleJoin direct fails card0))
     = currentPassengers (localTrip card0)
   \<and> currentPassengers (localTrip (handleJoin direct fails card0))
     \<noteq> currentPassengers (localTrip card0) + 1"
proof -
  have a: "onJoin delegated = Some succeeds" "onJoin direct = None"
    by (simp_all add: delegated_def direct_def)
  have c: "succeeds (trip_id (localTrip card0)) = Resolved"
    "fails (trip_id (localTrip card0)) = Rejected ''Trip is full''"
    by (simp_all add: succeeds_def fails_def)
  have d: "alerts card0 = []" by (simp add: card0_def)
  show ?thesis
    using a c d
      handleJoin_callback [where props = delegated and f = succeeds and joinTrip = succeeds
        and st = card0]
      handleJoin_direct_Rejected [where props = direct and joinTrip = fails and st = card0
        and message = "''Trip is full''"]
    by simp
qed

text \<open>
  Claim C5. On the direct path (no \<^verbatim>\<open>onJoin\<close>), when \<^verbatim>\<open>joinTrip\<close> resolves the local
  \<^verbatim>\<open>currentPassengers\<close> is raised by exactly one, nothing else of the local trip
  changes and no alert is shown; when it rejects, the message of the error is shown in
  an alert and the local trip, the animation flag, the calls of \<^verbatim>\<open>onUpdate\<close> and the
  timeouts are as before the call, with the loading flag cleared.
\<close>

theorem direct_join:
  "(onJoin props = None \<and> joinTrip (trip_id (localTrip st)) = Resolved \<longrightarrow>
      currentPassengers (localTrip (handleJoin props joinTrip st))
        = currentPassengers (localTrip st) + 1
      \<and> localTrip (handleJoin props joinTrip st)
        = (localTrip st)\<lparr>currentPassengers := currentPassengers (localTrip st) + 1\<rparr>
      \<and> alerts (handleJoin props joinTrip st) = alerts st)
   \<and> (onJoin props = None \<and> joinTrip (trip_id (localTrip st)) = Rejected message \<longrightarrow>
      alerts (handleJoin props joinTrip st) = alerts st @ [message]
      \<and> localTrip (handleJoin props joinTrip st) = localTrip st
      \<and> isAnimating (handleJoin props joinTrip st) = isAnimating st
      \<and> onUpdate_calls (handleJoin props joinTrip st) = onUpdate_calls st
      \<and> timeouts (handleJoin props joinTrip st) = timeouts st
      \<and> \<not> isLoading (handleJoin props joinTrip st))"
proof (intro conjI impI)
  assume h: "onJoin props = None \<and> joinTrip (trip_id (localTrip st)) = Resolved"
  then have e: "handleJoin props joinTrip st =
     st\<lparr>localTrip := (localTrip st)\<lparr>currentPassengers := currentPassengers (localTrip st) + 1\<rparr>,
        isLoading := False, isAnimating := True,
        onUpdate_calls :=
          (if has_onUpdate props
           then onUpdate_calls st @
                  [(localTrip st)\<lparr>currentPassengers := currentPassengers (localTrip st) + 1\<rparr>]
           else onUpdate_calls st),
        timeouts := timeouts st @ [1000]\<rparr>"
    by (simp add: handleJoin_direct_Resolved)
  show "currentPassengers (localTrip (handleJoin props joinTrip st))
        = currentPassengers (localTrip st) + 1"
    by (simp add: e)
  show "localTrip (handleJoin props joinTrip st)
        = (localTrip st)\<lparr>currentPassengers := currentPassengers (localTrip st) + 1\<rparr>"
    by (simp add: e)
  show "alerts (handleJoin props joinTrip st) = alerts st"
    by (simp add: e)
next
  assume h: "onJoin props = None \<and> joinTrip (trip_id (localTrip st)) = Rejected message"
  then have e: "handleJoin props joinTrip st
      = st\<lparr>isLoading := False, alerts := alerts st @ [message]\<rparr>"
    by (simp add: handleJoin_direct_Rejected)
  show "alerts (handleJoin props joinTrip st) = alerts st @ [message]" by (simp add: e)
  show "localTrip (handleJoin props joinTrip st) = localTrip st" by (simp add: e)
  show "isAnimating (handleJoin props joinTrip st) = isAnimating st" by (simp add: e)
  show "onUpdate_calls (handleJoin props joinTrip st) = onUpdate_calls st" by (simp add: e)
  show "timeouts (handleJoin props joinTrip st) = timeouts st" by (simp add: e)
  show "\<not> isLoading (handleJoin props joinTrip st)" by (simp add: e)
qed

text \<open>
  Claim C5 on the sample card, for a \<^verbatim>\<open>joinTrip\<close> that resolves and one that rejects.
\<close>

theorem direct_join_witness:
  "onJoin direct = None \<and> succeeds (trip_id (localTrip card0)) = Resolved
   \<and> currentPassengers (localTrip card0) = 2
   \<and> currentPassengers (localTrip (handleJoin direct succeeds card0)) = 3
   \<and> alerts (handleJoin direct succeeds card0) = []
   \<and> fails (trip_id (localTrip card0)) = Rejected ''Trip is full''
   \<and> alerts (handleJoin direct fails card0) = [''Trip is full'']
   \<and> localTrip (handleJoin direct fails card0) = localTrip card0"
proof -
  have a: "onJoin direct = None" by (simp add: direct_def)
  have b: "currentPassengers (localTrip card0) = 2" "alerts card0 = []"
    by (simp_all add: card0_def trip0_def)
  have c: "succeeds (trip_id (localTrip card0)) = Resolved"
    "fails (trip_id (localTrip card0)) = Rejected ''Trip is full''"
    by (simp_all add: succeeds_def fails_def)
  show ?thesis
    using a b c
      direct_join [where props = direct and joinTrip = succeeds and st = card0]
      direct_join [where props = direct and joinTrip = fails and st = card0
        and message = "''Trip is full''"]
    by simp
qed

section \<open>Roles and phone numbers\<close>

text \<open>
  Claim C6. \<^verbatim>\<open>canJoin\<close> holds exactly when the user is neither owner nor passenger and
  \<^verbatim>\<open>currentPassengers < maxPassengers\<close>, so it is false whenever the user is owner or
  passenger or the trip has reached its capacity; \<^verbatim>\<open>isFull\<close> holds exactly when
  \<^verbatim>\<open>currentPassengers >= maxPassengers\<close>; and the card renders no join button, enabled
  or not, when \<^verbatim>\<open>currentPassengers\<close> equals \<^verbatim>\<open>maxPassengers\<close>.
\<close>

theorem join_roles:
  "canJoin user trip
     = (\<not> isOwner user trip \<and> \<not> isPassenger trip
        \<and> currentPassengers trip < maxPassengers trip)
   \<and> (isOwner user trip \<or> isPassenger trip \<or> currentPassengers trip \<ge> maxPassengers trip
        \<longrightarrow> \<not> canJoin user trip)
   \<and> isFull trip = (currentPassengers trip \<ge> maxPassengers trip)
   \<and> (canJoin user trip \<longrightarrow> \<not> isFull trip)
   \<and> (currentPassengers (localTrip st) = maxPassengers (localTrip st)
        \<longrightarrow> joinButton props user st = None)
   \<and> (joinButton props user st \<noteq> None
        \<longrightarrow> currentPassengers (localTrip st) < maxPassengers (localTrip st)
            \<and> \<not> isOwner user (localTrip st) \<and> \<not> isPassenger (localTrip st))"
  by (auto simp: canJoin_def isFull_def joinButton_def)

text \<open>
  Claim C6 for a stranger looking at the full card, which has no join button, and at
  the sample card, which has an enabled one.
\<close>

theorem join_roles_witness:
  "currentPassengers (localTrip full_card) = maxPassengers (localTrip full_card)
   \<and> \<not> canJoin (Some stranger) (localTrip full_card)
   \<and> isFull (localTrip full_card)
   \<and> joinButton direct (Some stranger) full_card = None
   \<and> joinButton direct (Some stranger) card0 = Some \<lparr>disabled = False, label = ''Join Trip''\<rparr>
   \<and> canJoin (Some stranger) trip0 \<and> \<not> isFull trip0
   \<and> \<not> isOwner (Some stranger) trip0 \<and> \<not> isPassenger trip0"
proof -
  have a: "currentPassengers (localTrip full_card) = maxPassengers (localTrip full_card)"
    by (simp add: full_card_def card0_def trip0_def)
  have b: "joinButton direct (Some stranger) card0
      = Some \<lparr>disabled = False, label = ''Join Trip''\<rparr>"
    by (simp add: joinButton_def canJoin_def isOwner_def isPassenger_def direct_def
        stranger_def card0_def trip0_def)
  have c: "localTrip card0 = trip0" by (simp add: card0_def)
  show ?thesis
    using a b c
      join_roles [where user = "Some stranger" and trip = "localTrip full_card"
        and st = full_card and props = direct]
      join_roles [where user = "Some stranger" and trip = trip0
        and st = card0 and props = direct]
    by simp
qed

lemma slice_prefix: "0 \<le> n \<Longrightarrow> slice s 0 (Some n) = take (nat n) s"
  by (simp add: slice_def Let_def min_def)

lemma slice_suffix: "0 \<le> n \<Longrightarrow> slice s n None = drop (nat n) s"
  by (simp add: slice_def Let_def min_def)

lemma slice_drop_last: "0 < n \<Longrightarrow> slice s 0 (Some (- n)) = take (length s - nat n) s"
  by (simp add: slice_def Let_def max_def) (simp add: nat_diff_distrib')

lemma slice_last: "0 < n \<Longrightarrow> slice s (- n) None = drop (length s - nat n) s"
  by (simp add: slice_def Let_def max_def) (simp add: nat_diff_distrib')

text \<open>
  Claim C7. \<^verbatim>\<open>formatPhoneNumber\<close> keeps the digits of its input. With exactly ten digits
  the result is \<^verbatim>\<open>+91\<close>, a space, the first five digits, a space and the last five.
  With more than ten, the digits before the last ten are the country code, and the last
  ten are grouped five and five. Otherwise the input is returned as it is. So
  \<^verbatim>\<open>9876543210\<close> and \<^verbatim>\<open>919876543210\<close> both give \<^verbatim>\<open>+91 98765 43210\<close>.
\<close>

theorem formatPhoneNumber_cases:
  "formatPhoneNumber s =
     (let digits = filter isDigit s
      in if length digits = 10
         then ''+91 '' @ take 5 digits @ '' '' @ drop 5 digits
         else if 10 < length digits
         then (let number = drop (length digits - 10) digits
               in ''+'' @ take (length digits - 10) digits @ '' ''
                  @ take 5 number @ '' '' @ drop 5 number)
         else s)
   \<and> formatPhoneNumber ''9876543210'' = ''+91 98765 43210''
   \<and> formatPhoneNumber ''919876543210'' = ''+91 98765 43210''"
proof (intro conjI)
  show "formatPhoneNumber s =
     (let digits = filter isDigit s
      in if length digits = 10
         then ''+91 '' @ take 5 digits @ '' '' @ drop 5 digits
         else if 10 < length digits
         then (let number = drop (length digits - 10) digits
               in ''+'' @ take (length digits - 10) digits @ '' ''
                  @ take 5 number @ '' '' @ drop 5 number)
         else s)"
  proof (cases "s = []")
    case True
    then show ?thesis by (simp add: formatPhoneNumber_def)
  next
    case False
    then show ?thesis
      unfolding formatPhoneNumber_def Let_def
      by (simp add: slice_prefix slice_suffix slice_drop_last slice_last)
  qed
  show "formatPhoneNumber ''9876543210'' = ''+91 98765 43210''"
    by code_simp
  show "formatPhoneNumber ''919876543210'' = ''+91 98765 43210''"
    by code_simp
qed

text \<open>
  Claim C7 on inputs with punctuation, with a one-digit country code and with too few
  digits.
\<close>

theorem formatPhoneNumber_cases_witness:
  "formatPhoneNumber ''+91 (98765) 43210'' = ''+91 98765 43210''
   \<and> formatPhoneNumber ''98765-43210'' = ''+91 98765 43210''
   \<and> formatPhoneNumber ''1 9876543210'' = ''+1 98765 43210''
   \<and> formatPhoneNumber ''12345'' = ''12345''"
proof -
  have f: "filter isDigit ''+91 (98765) 43210'' = ''919876543210''"
    "filter isDigit ''98765-43210'' = ''9876543210''"
    "filter isDigit ''1 9876543210'' = ''19876543210''"
    "filter isDigit ''12345'' = ''12345''"
    by code_simp+
  have a: "formatPhoneNumber ''+91 (98765) 43210'' = ''+91 98765 43210''"
    by (simp only: formatPhoneNumber_cases [of "''+91 (98765) 43210''", THEN conjunct1]
        f Let_def) simp
  have b: "formatPhoneNumber ''98765-43210'' = ''+91 98765 43210''"
    by (simp only: formatPhoneNumber_cases [of "''98765-43210''", THEN conjunct1]
        f Let_def) simp
  have c: "formatPhoneNumber ''1 9876543210'' = ''+1 98765 43210''"
    by (simp only: formatPhoneNumber_cases [of "''1 9876543210''", THEN conjunct1]
        f Let_def) simp
  have d: "formatPhoneNumber ''12345'' = ''12345''"
    by (simp only: formatPhoneNumber_cases [of "''12345''", THEN conjunct1]
        f Let_def) simp
  show ?thesis using a b c d by simp
qed

end
